theory Spec2Isabelle
  imports Complex_Main
begin

section \<open>The operator workflow of \<^verbatim>\<open>drone_monitoring.py\<close>\<close>

text \<open>
  The dashboard is a Streamlit script: every operator interaction re-runs the whole file
  from the top, with \<^verbatim>\<open>st.session_state\<close> as the only data that survives from one
  run to the next. One run is modelled as a function from the widget inputs and the
  session state to the new session state and the list of things the run showed or waited
  for, in the order of the source.
\<close>

subsection \<open>Reference data and session state\<close>

text \<open>
  The radio \<^verbatim>\<open>st.radio("Choose a COA to execute", options=["COA 1", "COA 2", "COA 3"])\<close>
  can only return one of its three options, so \<^verbatim>\<open>chosen_coa\<close> is an enumeration.
  \<open>coa_name\<close> is the column \<^verbatim>\<open>COA\<close> of \<^verbatim>\<open>coa_data\<close> and \<open>coa_recommended_action\<close>
  the column \<^verbatim>\<open>Recommended Action\<close>.
\<close>

datatype coa = COA1 | COA2 | COA3

fun coa_name :: "coa \<Rightarrow> string" where
  "coa_name COA1 = ''COA 1''"
| "coa_name COA2 = ''COA 2''"
| "coa_name COA3 = ''COA 3''"

fun coa_recommended_action :: "coa \<Rightarrow> string" where
  "coa_recommended_action COA1 = ''Deploy drones to monitor high-threat anomalies.''"
| "coa_recommended_action COA2 =
     ''Coordinate ground units to investigate specific points of interest.''"
| "coa_recommended_action COA3 = ''Use electronic warfare to disrupt potential threats.''"

text \<open>
  The three keys of \<^verbatim>\<open>st.session_state\<close>. \<^verbatim>\<open>coa_selected\<close> is \<^verbatim>\<open>None\<close> until a COA
  has been executed.
\<close>

record session_state =
  alert_triggered :: bool
  show_surveillance :: bool
  coa_selected :: "coa option"

text \<open>
  Lines 45 to 52: a key that is missing gets its default. A fresh session has none of
  the keys (\<open>None\<close>); afterwards all three are present and the block changes nothing.
\<close>

definition session_state_initialization :: "session_state option \<Rightarrow> session_state" where
  "session_state_initialization sess =
     (case sess of
        None \<Rightarrow> \<lparr>alert_triggered = False, show_surveillance = False, coa_selected = None\<rparr>
      | Some s \<Rightarrow> s)"

subsection \<open>Widgets and what a run displays\<close>

text \<open>
  \<^verbatim>\<open>st.button\<close> returns \<^verbatim>\<open>True\<close> only in the run that the click on that very button
  started; at most one button is clicked per run.
\<close>

datatype click = NoClick | Execute_Selected_COA | View_Surveillance_Video

definition button :: "click \<Rightarrow> click \<Rightarrow> bool" where
  "button label clicked = (clicked = label)"

datatype layer_option = Heatmap | Scatterplot

record inputs =
  layer_choice :: layer_option
  chosen_coa :: coa
  clicked :: click

text \<open>
  What the workflow part of a run shows, and the one-second waits of the countdown
  (\<^verbatim>\<open>time.sleep(1)\<close> is \<open>Sleep 1\<close>). The warning's text is kept without its leading
  warning-sign character.
\<close>

datatype event =
    Success string
  | Video string string
  | Info string
  | Sleep nat
  | Warning string

subsection \<open>Executing a COA (lines 144 to 148)\<close>

definition execute_coa :: "coa \<Rightarrow> session_state \<Rightarrow> session_state" where
  "execute_coa chosen s =
     s\<lparr>coa_selected := Some chosen, alert_triggered := False, show_surveillance := False\<rparr>"

definition execute_selected_coa :: "inputs \<Rightarrow> session_state \<Rightarrow> session_state \<times> event list" where
  "execute_selected_coa inp s =
     (if button Execute_Selected_COA (clicked inp)
      then (execute_coa (chosen_coa inp) s,
            [Success (''Executing '' @ coa_name (chosen_coa inp) @ '': ''
                        @ coa_recommended_action (chosen_coa inp))])
      else (s, []))"

subsection \<open>Monitoring, alert and surveillance (lines 195 to 230)\<close>

text \<open>\<^verbatim>\<open>range(start, stop, -1)\<close>: \<open>start, start - 1, ...\<close> down to \<open>stop + 1\<close>.\<close>

fun range_down :: "nat \<Rightarrow> nat \<Rightarrow> nat list" where
  "range_down start stop =
     (if stop < start then start # range_down (start - 1) stop else [])"

declare range_down.simps [simp del]

text \<open>
  The loop of lines 207 to 209, one iteration per value of \<^verbatim>\<open>remaining_time\<close>: the
  placeholder is rewritten and the run sleeps one second. The body does not touch the
  session state, which is threaded through to make that visible.
\<close>

fun countdown :: "nat list \<Rightarrow> session_state \<times> event list \<Rightarrow> session_state \<times> event list" where
  "countdown [] st = st"
| "countdown (remaining_time # rest) (s, evs) =
     countdown rest (s, evs @ [Info ''Monitoring Selected Perimeter...'', Sleep 1])"

text \<open>Lines 217 to 219: the button exists only under the alert, and sets the flag.\<close>

definition view_surveillance_video :: "bool \<Rightarrow> session_state \<Rightarrow> session_state" where
  "view_surveillance_video pressed s =
     (if alert_triggered s
      then (if pressed then s\<lparr>show_surveillance := True\<rparr> else s)
      else s)"

text \<open>Lines 197 to 219, the left column.\<close>

definition drone_activity_monitoring :: "inputs \<Rightarrow> session_state \<Rightarrow> session_state \<times> event list" where
  "drone_activity_monitoring inp s =
     (case countdown (range_down 10 0)
             (s, [Video ''Normal Operation'' ''https://i.imgur.com/h4ghtfH.mp4'']) of
        (s1, evs1) \<Rightarrow>
          (view_surveillance_video (button View_Surveillance_Video (clicked inp))
             (s1\<lparr>alert_triggered := True\<rparr>),
           evs1 @ [Warning ''Suspicious activity detected!'']))"

text \<open>Lines 221 to 230, the right column.\<close>

definition surveillance_panel :: "session_state \<Rightarrow> event list" where
  "surveillance_panel s =
     (if show_surveillance s
      then [Video ''Suspicious Activity Detected'' ''https://i.imgur.com/o64VTM8.mp4'']
      else [])"

text \<open>
  Line 195: \<^verbatim>\<open>if st.session_state.get("coa_selected")\<close>. \<^verbatim>\<open>None\<close> is falsy and each
  of the three COA names is a non-empty string, hence truthy.
\<close>

definition suspicious_activity_monitoring ::
  "inputs \<Rightarrow> session_state \<Rightarrow> session_state \<times> event list" where
  "suspicious_activity_monitoring inp s =
     (case coa_selected s of
        None \<Rightarrow> (s, [])
      | Some c \<Rightarrow>
          (case drone_activity_monitoring inp s of
             (s', evs) \<Rightarrow> (s', evs @ surveillance_panel s')))"

text \<open>One run of the script, as far as the session state is concerned.\<close>

definition script_run :: "inputs \<Rightarrow> session_state option \<Rightarrow> session_state \<times> event list" where
  "script_run inp sess =
     (case execute_selected_coa inp (session_state_initialization sess) of
        (s1, evs1) \<Rightarrow>
          (case suspicious_activity_monitoring inp s1 of
             (s2, evs2) \<Rightarrow> (s2, evs1 @ evs2)))"

text \<open>The session states a session can be in between two runs.\<close>

inductive reachable :: "session_state \<Rightarrow> bool" where
  first_run: "reachable (fst (script_run inp None))"
| rerun: "reachable s \<Longrightarrow> reachable (fst (script_run inp (Some s)))"


section \<open>Anomaly records and the mission map\<close>

subsection \<open>Loading (lines 11 to 19)\<close>

text \<open>
  One row of \<^verbatim>\<open>drone_anomaly_actions.csv\<close>, with the five columns the script reads.
  The coordinates are only passed on to the map. A cell of \<^verbatim>\<open>threat_level\<close> that is
  not text (an empty cell, which pandas reads as NaN) behaves in everything below like a
  text other than the three known levels: it equals neither \<^verbatim>\<open>"High"\<close> nor
  \<^verbatim>\<open>"Medium"\<close> and is no key of the weights dictionary.
\<close>

record anomaly =
  latitude :: real
  longitude :: real
  anomaly_type :: string
  threat_level :: string
  recommended_action :: string

text \<open>
  \<^verbatim>\<open>pd.read_csv(path)\<close> either raises (no such file, not a CSV) or returns the rows of
  the file in file order. The files are a parameter of the model.
\<close>

datatype io_error = ReadCsvError

type_synonym files = "string \<Rightarrow> io_error + anomaly list"

text \<open>\<^verbatim>\<open>DataFrame.head(n)\<close> for \<open>n \<ge> 0\<close>: the first \<open>n\<close> rows, all of them if there are fewer.\<close>

definition df_head :: "nat \<Rightarrow> 'a list \<Rightarrow> 'a list" where
  "df_head n rows = take n rows"

text \<open>A file system that holds one readable CSV file; reading any other path raises.\<close>

definition single_file :: "string \<Rightarrow> anomaly list \<Rightarrow> files" where
  "single_file name rows path = (if path = name then Inr rows else Inl ReadCsvError)"

text \<open>The body of \<^verbatim>\<open>load_drone_anomalies\<close>, lines 12 and 13.\<close>

definition load_drone_anomalies :: "files \<Rightarrow> string \<Rightarrow> io_error + anomaly list" where
  "load_drone_anomalies read_csv path =
     (case read_csv path of
        Inl e \<Rightarrow> Inl e
      | Inr rows \<Rightarrow> Inr (df_head 100 rows))"

text \<open>
  The decorator \<^verbatim>\<open>@st.cache_data\<close> of line 11, as Streamlit documents it: the function's
  return value is stored under its argument, and a later call with an argument that is
  stored returns the stored value without running the body. A call that raises stores
  nothing. The store lives as long as the server process; the script never clears it.
\<close>

type_synonym 'v data_cache = "string \<rightharpoonup> 'v"

definition cache_data ::
  "(string \<Rightarrow> io_error + 'v) \<Rightarrow> 'v data_cache \<Rightarrow> string \<Rightarrow> (io_error + 'v) \<times> 'v data_cache" where
  "cache_data f cache arg =
     (case cache arg of
        Some v \<Rightarrow> (Inr v, cache)
      | None \<Rightarrow>
          (case f arg of
             Inl e \<Rightarrow> (Inl e, cache)
           | Inr v \<Rightarrow> (Inr v, cache(arg \<mapsto> v))))"

text \<open>What the name \<^verbatim>\<open>load_drone_anomalies\<close> is bound to after decoration.\<close>

definition load_drone_anomalies_cached ::
  "files \<Rightarrow> anomaly list data_cache \<Rightarrow> string
     \<Rightarrow> (io_error + anomaly list) \<times> anomaly list data_cache" where
  "load_drone_anomalies_cached read_csv cache path =
     cache_data (load_drone_anomalies read_csv) cache path"

text \<open>
  The stores a server process can hold: empty at start, then whatever calls of the
  decorated function leave behind, each call reading the files as they are at that time.
\<close>

inductive cache_reachable :: "anomaly list data_cache \<Rightarrow> bool" where
  fresh: "cache_reachable Map.empty"
| call: "cache_reachable cache \<Longrightarrow>
         cache_reachable (snd (load_drone_anomalies_cached read_csv cache path))"

subsection \<open>Weights (lines 22 to 26)\<close>

definition threat_level_weights :: "string \<rightharpoonup> int" where
  "threat_level_weights = [''High'' \<mapsto> 3, ''Medium'' \<mapsto> 2, ''Low'' \<mapsto> 1]"

text \<open>
  \<^verbatim>\<open>Series.map(dict)\<close> looks every element up in the dictionary; an element that is no
  key becomes NaN. Nothing is raised.
\<close>

datatype cell = Num int | NaN

definition map_value :: "('a \<rightharpoonup> int) \<Rightarrow> 'a \<Rightarrow> cell" where
  "map_value d x = (case d x of Some v \<Rightarrow> Num v | None \<Rightarrow> NaN)"

definition series_map :: "('a \<rightharpoonup> int) \<Rightarrow> 'a list \<Rightarrow> cell list" where
  "series_map d xs = map (map_value d) xs"

text \<open>A row of \<^verbatim>\<open>map_data\<close>: the anomaly's columns and the new column \<^verbatim>\<open>weight\<close>.\<close>

record map_row = anomaly +
  weight :: cell

definition with_weight :: "anomaly \<Rightarrow> cell \<Rightarrow> map_row" where
  "with_weight r w =
     \<lparr>latitude = latitude r, longitude = longitude r, anomaly_type = anomaly_type r,
      threat_level = threat_level r, recommended_action = recommended_action r, weight = w\<rparr>"

text \<open>
  Lines 22 and 26: a copy of the frame, whose column \<^verbatim>\<open>weight\<close> is assigned row by row
  from the mapped \<^verbatim>\<open>threat_level\<close> column.
\<close>

definition map_data :: "anomaly list \<Rightarrow> map_row list" where
  "map_data drone_anomalies =
     map2 with_weight drone_anomalies
       (series_map threat_level_weights (map threat_level drone_anomalies))"

subsection \<open>The layer and the deck (lines 79 to 121)\<close>

text \<open>The conditional expression of lines 100 to 102.\<close>

definition threat_level_color :: "string \<Rightarrow> string" where
  "threat_level_color lvl =
     (if lvl = ''High'' then ''255, 0, 0, 160''
      else if lvl = ''Medium'' then ''255, 165, 0, 160''
      else ''0, 128, 0, 160'')"

text \<open>
  \<^verbatim>\<open>pdk.Layer\<close> with the keyword arguments each of the two calls passes. \<open>get_color\<close> is
  the list the comprehension builds, one entry per row of \<^verbatim>\<open>map_data\<close>.
\<close>

datatype layer =
    HeatmapLayer
      (data: "map_row list") (get_position: "string list") (get_weight: string)
      (intensity: nat) (radius_pixels: nat) (threshold: real)
  | ScatterplotLayer
      (data: "map_row list") (get_position: "string list") (get_color: "string list")
      (get_radius: nat) (pickable: bool)

definition build_layer :: "layer_option \<Rightarrow> map_row list \<Rightarrow> layer" where
  "build_layer opt md =
     (if opt = Heatmap
      then HeatmapLayer md [''longitude'', ''latitude''] ''weight'' 10 60 (2 / 10)
      else ScatterplotLayer md [''longitude'', ''latitude'']
             (map threat_level_color (map threat_level md)) 1000 True)"

text \<open>
  The tooltip of lines 112 to 117 is a template: text, and \<^verbatim>\<open>{name}\<close> for the value of
  the column \<open>name\<close> of the row under the pointer. The line breaks and indentation of the
  Python literal are left out.
\<close>

datatype segment = Text string | Field string

definition tooltip_html :: "segment list" where
  "tooltip_html =
     [Text ''<b>Anomaly Type:</b> '', Field ''anomaly_type'', Text ''<br>'',
      Text ''<b>Threat Level:</b> '', Field ''threat_level'', Text ''<br>'',
      Text ''<b>Recommended Action:</b> '', Field ''recommended_action'']"





text \<open>\<^verbatim>\<open>pdk.Deck\<close> of lines 109 to 121; the fixed view state is not part of the model.\<close>

record deck =
  layers :: "layer list"
  tooltip :: "segment list"
  map_style :: string

definition map_deck :: "layer_option \<Rightarrow> anomaly list \<Rightarrow> deck" where
  "map_deck opt drone_anomalies =
     \<lparr>layers = [build_layer opt (map_data drone_anomalies)],
      tooltip = tooltip_html,
      map_style = ''mapbox://styles/mapbox/dark-v10''\<rparr>"

text \<open>
  The map part of one run: the load of line 19, whose exception ends the run, then the
  deck for the chosen layer.
\<close>

definition mission_map ::
  "files \<Rightarrow> anomaly list data_cache \<Rightarrow> layer_option \<Rightarrow> (io_error + deck) \<times> anomaly list data_cache" where
  "mission_map read_csv cache opt =
     (case load_drone_anomalies_cached read_csv cache ''drone_anomaly_actions.csv'' of
        (Inl e, cache') \<Rightarrow> (Inl e, cache')
      | (Inr drone_anomalies, cache') \<Rightarrow> (Inr (map_deck opt drone_anomalies), cache'))"

section \<open>Properties of the workflow\<close>

subsection \<open>The countdown\<close>

lemma range_down_10: "range_down 10 0 = [10, 9, 8, 7, 6, 5, 4, 3, 2, 1]"
  by code_simp

lemma range_down_length: "length (range_down 10 0) = 10"
  by (simp add: range_down_10)

lemma countdown_state: "fst (countdown ticks st) = fst st"
  by (induction ticks st rule: countdown.induct) simp_all

lemma countdown_events:
  "snd (countdown ticks (s, evs)) =
     evs @ concat (replicate (length ticks) [Info ''Monitoring Selected Perimeter...'', Sleep 1])"
  by (induction ticks arbitrary: evs) simp_all

lemma countdown_eq:
  "countdown ticks (s, evs) =
     (s, evs @ concat (replicate (length ticks) [Info ''Monitoring Selected Perimeter...'', Sleep 1]))"
  using countdown_state [of ticks "(s, evs)"] countdown_events [of ticks s evs]
  by (simp add: prod_eq_iff)




lemma drone_activity_monitoring_eq:
  "drone_activity_monitoring inp s =
     (view_surveillance_video (button View_Surveillance_Video (clicked inp))
        (s\<lparr>alert_triggered := True\<rparr>),
      Video ''Normal Operation'' ''https://i.imgur.com/h4ghtfH.mp4''
        # concat (replicate 10 [Info ''Monitoring Selected Perimeter...'', Sleep 1])
        @ [Warning ''Suspicious activity detected!''])"
  by (simp add: drone_activity_monitoring_def countdown_eq range_down_length)


subsection \<open>Executing a COA\<close>

text \<open>
  Claim C1. Whatever the session state, executing a COA stores the chosen COA in
  \<open>coa_selected\<close> and sets \<open>alert_triggered\<close> and \<open>show_surveillance\<close> to false: the three
  assignments, the button handler when the button is the one clicked, and, for the whole
  run that the click starts, a final session state that does not depend on the state
  before the click.
\<close>

theorem execute_coa_restarts_workflow:
  "execute_coa c s
     = \<lparr>alert_triggered = False, show_surveillance = False, coa_selected = Some c\<rparr>
   \<and> fst (execute_selected_coa (inp\<lparr>clicked := Execute_Selected_COA\<rparr>) s)
       = \<lparr>alert_triggered = False, show_surveillance = False,
          coa_selected = Some (chosen_coa inp)\<rparr>
   \<and> fst (script_run (inp\<lparr>clicked := Execute_Selected_COA\<rparr>) (Some s))
       = fst (script_run (inp\<lparr>clicked := Execute_Selected_COA\<rparr>) (Some s'))"
  by (simp add: execute_coa_def execute_selected_coa_def button_def script_run_def
      session_state_initialization_def suspicious_activity_monitoring_def
      drone_activity_monitoring_eq view_surveillance_video_def)

subsection \<open>Countdown and alert\<close>



subsection \<open>Surveillance only after the alert\<close>

lemma script_run_invariant:
  assumes "show_surveillance s0 \<longrightarrow> alert_triggered s0"
  shows "show_surveillance (fst (script_run inp (Some s0)))
           \<longrightarrow> alert_triggered (fst (script_run inp (Some s0)))"
  using assms
  by (auto simp: script_run_def session_state_initialization_def execute_selected_coa_def
      execute_coa_def suspicious_activity_monitoring_def drone_activity_monitoring_eq
      view_surveillance_video_def split: option.splits if_splits)

lemma first_run_invariant:
  "show_surveillance (fst (script_run inp None)) \<longrightarrow> alert_triggered (fst (script_run inp None))"
  by (auto simp: script_run_def session_state_initialization_def execute_selected_coa_def
      execute_coa_def suspicious_activity_monitoring_def drone_activity_monitoring_eq
      view_surveillance_video_def split: option.splits if_splits)

lemma reachable_invariant: "reachable s \<Longrightarrow> show_surveillance s \<longrightarrow> alert_triggered s"
proof (induction rule: reachable.induct)
  case (first_run inp)
  show ?case by (rule first_run_invariant)
next
  case (rerun s inp)
  from rerun.IH show ?case by (rule script_run_invariant)
qed

text \<open>
  Claim C3. Pressing the surveillance button while \<open>alert_triggered\<close> is false leaves the
  session state as it is; pressing it while \<open>alert_triggered\<close> is true sets
  \<open>show_surveillance\<close>; the handler turns \<open>show_surveillance\<close> from false to true only
  under the alert; in every session state a session can reach, \<open>show_surveillance\<close>
  implies \<open>alert_triggered\<close>; and a run started by that button while no COA is selected
  leaves the session state as it is.
\<close>

theorem surveillance_only_after_alert:
  "(\<not> alert_triggered s \<longrightarrow> view_surveillance_video pressed s = s)
   \<and> (alert_triggered s \<longrightarrow> show_surveillance (view_surveillance_video True s))
   \<and> (\<not> show_surveillance s \<and> show_surveillance (view_surveillance_video pressed s)
        \<longrightarrow> alert_triggered s)
   \<and> (reachable s \<longrightarrow> show_surveillance s \<longrightarrow> alert_triggered s)
   \<and> (coa_selected s = None
        \<longrightarrow> fst (script_run (inp\<lparr>clicked := View_Surveillance_Video\<rparr>) (Some s)) = s)"
  using reachable_invariant [of s]
  by (auto simp: view_surveillance_video_def script_run_def session_state_initialization_def
      execute_selected_coa_def button_def suspicious_activity_monitoring_def)

theorem surveillance_only_after_alert_witness:
  "view_surveillance_video True
       \<lparr>alert_triggered = False, show_surveillance = False, coa_selected = None\<rparr>
     = \<lparr>alert_triggered = False, show_surveillance = False, coa_selected = None\<rparr>
   \<and> show_surveillance (view_surveillance_video True
       \<lparr>alert_triggered = True, show_surveillance = False, coa_selected = Some COA1\<rparr>)
   \<and> reachable \<lparr>alert_triggered = True, show_surveillance = True, coa_selected = Some COA1\<rparr>
   \<and> alert_triggered
       \<lparr>alert_triggered = True, show_surveillance = True, coa_selected = Some COA1\<rparr>
   \<and> fst (script_run
        \<lparr>layer_choice = Heatmap, chosen_coa = COA1, clicked = View_Surveillance_Video\<rparr>
        (Some \<lparr>alert_triggered = False, show_surveillance = False, coa_selected = None\<rparr>))
     = \<lparr>alert_triggered = False, show_surveillance = False, coa_selected = None\<rparr>"
proof -
  have "reachable (fst (script_run
          \<lparr>layer_choice = Heatmap, chosen_coa = COA1, clicked = View_Surveillance_Video\<rparr>
          (Some (fst (script_run
             \<lparr>layer_choice = Heatmap, chosen_coa = COA1, clicked = Execute_Selected_COA\<rparr>
             None)))))"
    by (rule reachable.rerun [OF reachable.first_run])
  then have r: "reachable
      \<lparr>alert_triggered = True, show_surveillance = True, coa_selected = Some COA1\<rparr>"
    by (simp add: script_run_def session_state_initialization_def execute_selected_coa_def
        execute_coa_def suspicious_activity_monitoring_def drone_activity_monitoring_eq
        view_surveillance_video_def button_def)
  show ?thesis
    using r
      surveillance_only_after_alert
        [of "\<lparr>alert_triggered = False, show_surveillance = False, coa_selected = None\<rparr>" True
            "\<lparr>layer_choice = Heatmap, chosen_coa = COA1, clicked = View_Surveillance_Video\<rparr>"]
      surveillance_only_after_alert
        [of "\<lparr>alert_triggered = True, show_surveillance = False, coa_selected = Some COA1\<rparr>"
            True]
      surveillance_only_after_alert
        [of "\<lparr>alert_triggered = True, show_surveillance = True, coa_selected = Some COA1\<rparr>"]
    by (simp add: view_surveillance_video_def)
qed

section \<open>Properties of the map\<close>

subsection \<open>The rows of the map data\<close>

lemma map_data_eq:
  "map_data rs = map (\<lambda>r. with_weight r (map_value threat_level_weights (threat_level r))) rs"
  by (induction rs) (simp_all add: map_data_def series_map_def)





lemma with_weight_sel:
  "threat_level (with_weight r w) = threat_level r"
  "anomaly_type (with_weight r w) = anomaly_type r"
  "recommended_action (with_weight r w) = recommended_action r"
  "weight (with_weight r w) = w"
  by (simp_all add: with_weight_def)

lemma weights_known:
  "map_value threat_level_weights ''High'' = Num 3"
  "map_value threat_level_weights ''Medium'' = Num 2"
  "map_value threat_level_weights ''Low'' = Num 1"
  by (simp_all add: map_value_def threat_level_weights_def)

lemma weights_unknown:
  "lvl \<noteq> ''High'' \<Longrightarrow> lvl \<noteq> ''Medium'' \<Longrightarrow> lvl \<noteq> ''Low'' \<Longrightarrow>
     map_value threat_level_weights lvl = NaN"
  by (simp add: map_value_def threat_level_weights_def)




subsection \<open>Encoding the three known levels\<close>

text \<open>
  Claim C4. A record whose \<open>threat_level\<close> is High, Medium or Low gets the weight 3, 2
  or 1 in the map data and the color \<^verbatim>\<open>255, 0, 0, 160\<close> (red), \<^verbatim>\<open>255, 165, 0, 160\<close>
  (orange) or \<^verbatim>\<open>0, 128, 0, 160\<close> (green) in the scatter layer. Two records with the same
  \<open>threat_level\<close> get the same weight and the same color, whatever their other columns.
  The levels High, Low, Medium in this order give the weights 3, 1, 2 and the colors red,
  green, orange.
\<close>

theorem threat_encoding_recognised:
  "(threat_level r = ''High'' \<longrightarrow>
      map weight (map_data [r]) = [Num 3]
      \<and> get_color (build_layer Scatterplot (map_data [r])) = [''255, 0, 0, 160''])
   \<and> (threat_level r = ''Medium'' \<longrightarrow>
      map weight (map_data [r]) = [Num 2]
      \<and> get_color (build_layer Scatterplot (map_data [r])) = [''255, 165, 0, 160''])
   \<and> (threat_level r = ''Low'' \<longrightarrow>
      map weight (map_data [r]) = [Num 1]
      \<and> get_color (build_layer Scatterplot (map_data [r])) = [''0, 128, 0, 160''])
   \<and> (threat_level r = threat_level r' \<longrightarrow>
      map weight (map_data [r]) = map weight (map_data [r'])
      \<and> get_color (build_layer Scatterplot (map_data [r]))
          = get_color (build_layer Scatterplot (map_data [r'])))
   \<and> series_map threat_level_weights [''High'', ''Low'', ''Medium''] = [Num 3, Num 1, Num 2]
   \<and> map threat_level_color [''High'', ''Low'', ''Medium'']
       = [''255, 0, 0, 160'', ''0, 128, 0, 160'', ''255, 165, 0, 160'']"
  by (simp add: map_data_eq with_weight_sel weights_known build_layer_def threat_level_color_def
      series_map_def)

theorem threat_encoding_recognised_witness:
  "map weight (map_data
       [\<lparr>latitude = 5, longitude = 118, anomaly_type = ''Vessel'',
         threat_level = ''High'', recommended_action = ''Intercept''\<rparr>]) = [Num 3]
   \<and> get_color (build_layer Scatterplot (map_data
       [\<lparr>latitude = 5, longitude = 118, anomaly_type = ''Vessel'',
         threat_level = ''High'', recommended_action = ''Intercept''\<rparr>]))
       = [''255, 0, 0, 160'']
   \<and> map weight (map_data
       [\<lparr>latitude = 6, longitude = 117, anomaly_type = ''Signal Loss'',
         threat_level = ''Medium'', recommended_action = ''Reconnect''\<rparr>]) = [Num 2]
   \<and> get_color (build_layer Scatterplot (map_data
       [\<lparr>latitude = 6, longitude = 117, anomaly_type = ''Signal Loss'',
         threat_level = ''Medium'', recommended_action = ''Reconnect''\<rparr>]))
       = [''255, 165, 0, 160'']
   \<and> map weight (map_data
       [\<lparr>latitude = 4, longitude = 119, anomaly_type = ''Bird Strike'',
         threat_level = ''Low'', recommended_action = ''Log''\<rparr>]) = [Num 1]
   \<and> get_color (build_layer Scatterplot (map_data
       [\<lparr>latitude = 4, longitude = 119, anomaly_type = ''Bird Strike'',
         threat_level = ''Low'', recommended_action = ''Log''\<rparr>]))
       = [''0, 128, 0, 160'']
   \<and> map weight (map_data
       [\<lparr>latitude = 5, longitude = 118, anomaly_type = ''Vessel'',
         threat_level = ''High'', recommended_action = ''Intercept''\<rparr>])
       = map weight (map_data
       [\<lparr>latitude = 1, longitude = 2, anomaly_type = ''Jamming'',
         threat_level = ''High'', recommended_action = ''Relocate''\<rparr>])"
  using
    threat_encoding_recognised
      [of "\<lparr>latitude = 5, longitude = 118, anomaly_type = ''Vessel'',
            threat_level = ''High'', recommended_action = ''Intercept''\<rparr>"
          "\<lparr>latitude = 1, longitude = 2, anomaly_type = ''Jamming'',
            threat_level = ''High'', recommended_action = ''Relocate''\<rparr>"]
    threat_encoding_recognised
      [of "\<lparr>latitude = 6, longitude = 117, anomaly_type = ''Signal Loss'',
            threat_level = ''Medium'', recommended_action = ''Reconnect''\<rparr>"
          "\<lparr>latitude = 6, longitude = 117, anomaly_type = ''Signal Loss'',
            threat_level = ''Medium'', recommended_action = ''Reconnect''\<rparr>"]
    threat_encoding_recognised
      [of "\<lparr>latitude = 4, longitude = 119, anomaly_type = ''Bird Strike'',
            threat_level = ''Low'', recommended_action = ''Log''\<rparr>"
          "\<lparr>latitude = 4, longitude = 119, anomaly_type = ''Bird Strike'',
            threat_level = ''Low'', recommended_action = ''Log''\<rparr>"]
  by (simp add: map_data_eq with_weight_def weights_known)

subsection \<open>Encoding any other level\<close>

text \<open>
  Claim C5 does not hold as the specification words it. The level \<^verbatim>\<open>Critical\<close> is none
  of the three known ones and is encoded without any error: the weight lookup gives NaN
  and the color expression gives green, the color of Low. The run that loads a file with
  such a record ends with a deck, not with an exception.
\<close>

theorem unrecognised_level_returns_counterexample:
  "map_value threat_level_weights ''Critical'' = NaN
   \<and> threat_level_color ''Critical'' = ''0, 128, 0, 160''
   \<and> threat_level_color ''Critical'' = threat_level_color ''Low''
   \<and> fst (mission_map
        (single_file ''drone_anomaly_actions.csv''
           [\<lparr>latitude = 5, longitude = 118, anomaly_type = ''Unidentified Drone'',
             threat_level = ''Critical'', recommended_action = ''Investigate''\<rparr>])
        Map.empty Scatterplot)
     = Inr \<lparr>layers =
              [ScatterplotLayer
                 [\<lparr>latitude = 5, longitude = 118, anomaly_type = ''Unidentified Drone'',
                   threat_level = ''Critical'', recommended_action = ''Investigate'',
                   weight = NaN\<rparr>]
                 [''longitude'', ''latitude''] [''0, 128, 0, 160''] 1000 True],
            tooltip = tooltip_html,
            map_style = ''mapbox://styles/mapbox/dark-v10''\<rparr>"
  by (simp add: map_value_def threat_level_weights_def threat_level_color_def
      mission_map_def load_drone_anomalies_cached_def cache_data_def
      load_drone_anomalies_def df_head_def single_file_def map_deck_def build_layer_def
      map_data_def series_map_def with_weight_def)

text \<open>
  Claim C5, as the code has it. For every \<open>threat_level\<close> other than High, Medium and
  Low, neither encoding fails: the weight lookup of \<^verbatim>\<open>Series.map\<close> gives NaN, a missing
  weight, and the color expression gives \<^verbatim>\<open>0, 128, 0, 160\<close>, the green of Low.
\<close>

theorem unrecognised_level_encoding:
  assumes "lvl \<noteq> ''High''" and "lvl \<noteq> ''Medium''" and "lvl \<noteq> ''Low''"
  shows "map_value threat_level_weights lvl = NaN
    \<and> series_map threat_level_weights [lvl] = [NaN]
    \<and> threat_level_color lvl = ''0, 128, 0, 160''
    \<and> threat_level_color lvl = threat_level_color ''Low''"
  using assms by (simp add: weights_unknown series_map_def threat_level_color_def)

theorem unrecognised_level_encoding_witness:
  "''Severe'' \<noteq> ''High'' \<and> ''Severe'' \<noteq> ''Medium'' \<and> ''Severe'' \<noteq> ''Low''
   \<and> map_value threat_level_weights ''Severe'' = NaN
   \<and> threat_level_color ''Severe'' = ''0, 128, 0, 160''"
  using unrecognised_level_encoding [of "''Severe''"] by simp

subsection \<open>Records with another level stay in the layer\<close>




subsection \<open>Points of the two layers\<close>





section \<open>Properties of loading\<close>

lemma load_length:
  "load_drone_anomalies read_csv path = Inr xs \<Longrightarrow> length xs \<le> 100"
  by (auto simp: load_drone_anomalies_def df_head_def split: sum.splits)

lemma load_take:
  "load_drone_anomalies read_csv path = Inr xs \<Longrightarrow>
     \<exists>rows. read_csv path = Inr rows \<and> xs = take 100 rows"
  by (auto simp: load_drone_anomalies_def df_head_def split: sum.splits)

lemma cached_entries_capped:
  "cache_reachable cache \<Longrightarrow> cache p = Some xs \<Longrightarrow> length xs \<le> 100"
proof (induction arbitrary: p xs rule: cache_reachable.induct)
  case fresh
  then show ?case by simp
next
  case (call cache read_csv path)
  then show ?case
    by (auto simp: load_drone_anomalies_cached_def cache_data_def load_length
        split: option.splits sum.splits if_splits)
qed

lemma cached_call_stores:
  "fst (load_drone_anomalies_cached read_csv cache path) = Inr xs \<Longrightarrow>
     snd (load_drone_anomalies_cached read_csv cache path) path = Some xs"
  by (auto simp: load_drone_anomalies_cached_def cache_data_def split: option.splits sum.splits)

text \<open>
  Claim C7. A call of the loader that returns, returns at most 100 records, in every store
  the process can hold; a call that finds nothing stored returns the first 100 rows of
  the file as it is, in file order; so does the undecorated body. The cap is the literal
  100 of line 13.
\<close>

theorem load_capped_in_order:
  "(cache_reachable cache \<and> fst (load_drone_anomalies_cached read_csv cache path) = Inr xs
      \<longrightarrow> length xs \<le> 100)
   \<and> (cache path = None \<and> fst (load_drone_anomalies_cached read_csv cache path) = Inr xs
      \<longrightarrow> (\<exists>rows. read_csv path = Inr rows \<and> xs = take 100 rows
            \<and> (\<forall>i<length xs. xs ! i = rows ! i)))
   \<and> (read_csv path = Inr rows
      \<longrightarrow> load_drone_anomalies read_csv path = Inr (take 100 rows))"
proof (intro conjI impI)
  assume a: "cache_reachable cache \<and> fst (load_drone_anomalies_cached read_csv cache path) = Inr xs"
  show "length xs \<le> 100"
  proof (cases "cache path")
    case None
    with a have "load_drone_anomalies read_csv path = Inr xs"
      by (auto simp: load_drone_anomalies_cached_def cache_data_def split: sum.splits)
    then show ?thesis by (rule load_length)
  next
    case (Some ys)
    with a have "ys = xs"
      by (simp add: load_drone_anomalies_cached_def cache_data_def)
    with a Some show ?thesis using cached_entries_capped by blast
  qed
next
  assume a: "cache path = None \<and> fst (load_drone_anomalies_cached read_csv cache path) = Inr xs"
  then have "load_drone_anomalies read_csv path = Inr xs"
    by (auto simp: load_drone_anomalies_cached_def cache_data_def split: sum.splits)
  then obtain rows where "read_csv path = Inr rows" "xs = take 100 rows"
    using load_take by blast
  then show "\<exists>rows. read_csv path = Inr rows \<and> xs = take 100 rows
            \<and> (\<forall>i<length xs. xs ! i = rows ! i)"
    by simp
next
  assume "read_csv path = Inr rows"
  then show "load_drone_anomalies read_csv path = Inr (take 100 rows)"
    by (simp add: load_drone_anomalies_def df_head_def)
qed

theorem load_capped_in_order_witness:
  "cache_reachable Map.empty
   \<and> fst (load_drone_anomalies_cached
        (single_file ''drone_anomaly_actions.csv''
           (\<lparr>latitude = 5, longitude = 118, anomaly_type = ''Vessel'',
             threat_level = ''High'', recommended_action = ''Intercept''\<rparr>
            # replicate 100
                \<lparr>latitude = 4, longitude = 119, anomaly_type = ''Bird Strike'',
                 threat_level = ''Low'', recommended_action = ''Log''\<rparr>))
        Map.empty ''drone_anomaly_actions.csv'')
     = Inr (\<lparr>latitude = 5, longitude = 118, anomaly_type = ''Vessel'',
              threat_level = ''High'', recommended_action = ''Intercept''\<rparr>
            # replicate 99
                \<lparr>latitude = 4, longitude = 119, anomaly_type = ''Bird Strike'',
                 threat_level = ''Low'', recommended_action = ''Log''\<rparr>)
   \<and> length (\<lparr>latitude = 5, longitude = 118, anomaly_type = ''Vessel'',
              threat_level = ''High'', recommended_action = ''Intercept''\<rparr>
            # replicate 99
                \<lparr>latitude = 4, longitude = 119, anomaly_type = ''Bird Strike'',
                 threat_level = ''Low'', recommended_action = ''Log''\<rparr>) = 100"
  using cache_reachable.fresh
    load_capped_in_order
      [of Map.empty
          "single_file ''drone_anomaly_actions.csv''
             (\<lparr>latitude = 5, longitude = 118, anomaly_type = ''Vessel'',
               threat_level = ''High'', recommended_action = ''Intercept''\<rparr>
              # replicate 100
                  \<lparr>latitude = 4, longitude = 119, anomaly_type = ''Bird Strike'',
                   threat_level = ''Low'', recommended_action = ''Log''\<rparr>)"
          "''drone_anomaly_actions.csv''"
          "\<lparr>latitude = 5, longitude = 118, anomaly_type = ''Vessel'',
              threat_level = ''High'', recommended_action = ''Intercept''\<rparr>
            # replicate 99
                \<lparr>latitude = 4, longitude = 119, anomaly_type = ''Bird Strike'',
                 threat_level = ''Low'', recommended_action = ''Log''\<rparr>"
          "\<lparr>latitude = 5, longitude = 118, anomaly_type = ''Vessel'',
             threat_level = ''High'', recommended_action = ''Intercept''\<rparr>
           # replicate 100
               \<lparr>latitude = 4, longitude = 119, anomaly_type = ''Bird Strike'',
                threat_level = ''Low'', recommended_action = ''Log''\<rparr>"]
  by (simp add: load_drone_anomalies_cached_def cache_data_def load_drone_anomalies_def
      df_head_def single_file_def)

text \<open>
  Claim C8. Once a call of the loader for a path has returned a sequence, every later call
  for that path returns the same sequence and leaves the store as it is, whatever the
  files hold by then and whatever else has been stored in between: the file is not read
  again.
\<close>

theorem load_cache_stable:
  assumes "fst (load_drone_anomalies_cached read_csv cache path) = Inr xs"
    and "snd (load_drone_anomalies_cached read_csv cache path) \<subseteq>\<^sub>m cache'"
  shows "load_drone_anomalies_cached read_csv' cache' path = (Inr xs, cache')"
proof -
  from assms(1) have "snd (load_drone_anomalies_cached read_csv cache path) path = Some xs"
    by (rule cached_call_stores)
  with assms(2) have "cache' path = Some xs"
    by (metis domI map_le_def)
  then show ?thesis
    by (simp add: load_drone_anomalies_cached_def cache_data_def)
qed

theorem load_cache_stable_witness:
  "fst (load_drone_anomalies_cached
        (single_file ''drone_anomaly_actions.csv''
           [\<lparr>latitude = 5, longitude = 118, anomaly_type = ''Vessel'',
             threat_level = ''High'', recommended_action = ''Intercept''\<rparr>])
        Map.empty ''drone_anomaly_actions.csv'')
     = Inr [\<lparr>latitude = 5, longitude = 118, anomaly_type = ''Vessel'',
             threat_level = ''High'', recommended_action = ''Intercept''\<rparr>]
   \<and> fst (load_drone_anomalies_cached
        (single_file ''drone_anomaly_actions.csv''
           [\<lparr>latitude = 4, longitude = 119, anomaly_type = ''Bird Strike'',
             threat_level = ''Low'', recommended_action = ''Log''\<rparr>])
        (snd (load_drone_anomalies_cached
           (single_file ''drone_anomaly_actions.csv''
              [\<lparr>latitude = 5, longitude = 118, anomaly_type = ''Vessel'',
                threat_level = ''High'', recommended_action = ''Intercept''\<rparr>])
           Map.empty ''drone_anomaly_actions.csv''))
        ''drone_anomaly_actions.csv'')
     = Inr [\<lparr>latitude = 5, longitude = 118, anomaly_type = ''Vessel'',
             threat_level = ''High'', recommended_action = ''Intercept''\<rparr>]"
proof -
  have first: "fst (load_drone_anomalies_cached
        (single_file ''drone_anomaly_actions.csv''
           [\<lparr>latitude = 5, longitude = 118, anomaly_type = ''Vessel'',
             threat_level = ''High'', recommended_action = ''Intercept''\<rparr>])
        Map.empty ''drone_anomaly_actions.csv'')
     = Inr [\<lparr>latitude = 5, longitude = 118, anomaly_type = ''Vessel'',
             threat_level = ''High'', recommended_action = ''Intercept''\<rparr>]"
    by (simp add: load_drone_anomalies_cached_def cache_data_def load_drone_anomalies_def
        df_head_def single_file_def)
  from load_cache_stable [OF first map_le_refl] first show ?thesis
    by simp
qed

end
